theory Spec2Isabelle
  imports Main "HOL-Library.Word"
begin

unbundle bit_operations_syntax

section \<open>mksnapshot: the snapshot writer, the script loader and the driver\<close>

text \<open>
  A shallow embedding of \<^verbatim>\<open>deps/v8/src/snapshot/mksnapshot.cc\<close>.  Bytes (\<^verbatim>\<open>i::byte\<close>,
  \<^verbatim>\<open>unsigned char\<close>) are 8-bit words.  An \<^verbatim>\<open>i::Vector<const i::byte>\<close> is the list of
  the bytes it spans; its \<^verbatim>\<open>length()\<close> is an \<^verbatim>\<open>int\<close>, so a vector the program can hold
  has fewer than \<open>2 ^ 31\<close> elements, and the theorems about the writer carry that bound.
  A text stream (\<^verbatim>\<open>FILE*\<close> written with \<^verbatim>\<open>fprintf\<close>) is the string written to it so far.
\<close>

subsection \<open>Formatted output\<close>

type_synonym byte = "8 word"

text \<open>\<^verbatim>\<open>fprintf(fp, s)\<close> with the format already expanded: the text is appended. The
  source never looks at the value \<^verbatim>\<open>fprintf\<close> returns.\<close>

definition fprintf :: "string \<Rightarrow> string \<Rightarrow> string" where
  "fprintf fp s = fp @ s"

definition digit_char :: "nat \<Rightarrow> char" where
  "digit_char d = ''0123456789'' ! d"

text \<open>The conversion \<^verbatim>\<open>%u\<close>: decimal digits, most significant first, no padding.\<close>

function fmt_u :: "nat \<Rightarrow> string" where
  "fmt_u n = (if n < 10 then [digit_char n] else fmt_u (n div 10) @ [digit_char (n mod 10)])"
  by pat_completeness auto
termination
  by (relation "measure (\<lambda>n. n)") auto

declare fmt_u.simps [simp del]

text \<open>The conversion \<^verbatim>\<open>%d\<close>: a minus sign for a negative value, then the digits.\<close>

definition fmt_d :: "int \<Rightarrow> string" where
  "fmt_d i = (if i < 0 then ''-'' @ fmt_u (nat (- i)) else fmt_u (nat i))"

subsection \<open>SnapshotWriter: the byte-array body\<close>

text \<open>
  \<^verbatim>\<open>for (int i = 0; i < blob.length(); i++) {
    if ((i & 0x1f) == 0x1f) fprintf(fp, "\n");
    if (i > 0) fprintf(fp, ",");
    fprintf(fp, "%u", static_cast<unsigned char>(blob.at(i)));
  }\<close>
  The counter stays below \<^verbatim>\<open>blob.length()\<close>, an \<^verbatim>\<open>int\<close>, so it never overflows; the
  bit test is made on its 32-bit value.
\<close>

function WriteSnapshotData_loop :: "nat \<Rightarrow> byte list \<Rightarrow> string \<Rightarrow> string" where
  "WriteSnapshotData_loop i blob fp =
     (if i < length blob then
        (let fp1 = (if (word_of_nat i :: 32 word) AND 0x1f = 0x1f
                    then fprintf fp ''\<newline>'' else fp);
             fp2 = (if i > 0 then fprintf fp1 '','' else fp1);
             fp3 = fprintf fp2 (fmt_u (unat (blob ! i)))
         in WriteSnapshotData_loop (i + 1) blob fp3)
      else fp)"
  by pat_completeness auto
termination
  by (relation "measure (\<lambda>(i, blob, fp). length blob - i)") auto

declare WriteSnapshotData_loop.simps [simp del]

definition WriteSnapshotData :: "string \<Rightarrow> byte list \<Rightarrow> string" where
  "WriteSnapshotData fp blob = fprintf (WriteSnapshotData_loop 0 blob fp) ''\<newline>''"

definition WriteData :: "string \<Rightarrow> byte list \<Rightarrow> string" where
  "WriteData fp blob =
     (let fp1 = fprintf fp ''static const byte blob_data[] = {\<newline>'';
          fp2 = WriteSnapshotData fp1 blob;
          fp3 = fprintf fp2 ''};\<newline>'';
          fp4 = fprintf fp3
                  (''static const int blob_size = '' @ fmt_d (int (length blob)) @ '';\<newline>'');
          fp5 = fprintf fp4 ''static const v8::StartupData blob =\<newline>''
      in fprintf fp5 ''{ (const char*) blob_data, blob_size };\<newline>'')"

definition WriteFilePrefix :: "string \<Rightarrow> string" where
  \<open>WriteFilePrefix fp =
     (let fp1 = fprintf fp ''// Autogenerated snapshot file. Do not edit.\<newline>\<newline>'';
          fp2 = fprintf fp1 ''#include "src/v8.h"\<newline>'';
          fp3 = fprintf fp2 ''#include "src/base/platform/platform.h"\<newline>\<newline>'';
          fp4 = fprintf fp3 ''#include "src/snapshot/snapshot.h"\<newline>\<newline>'';
          fp5 = fprintf fp4 ''namespace v8 {\<newline>''
      in fprintf fp5 ''namespace internal {\<newline>\<newline>'')\<close>

definition WriteFileSuffix :: "string \<Rightarrow> string" where
  "WriteFileSuffix fp =
     (let fp1 = fprintf fp ''const v8::StartupData* Snapshot::DefaultSnapshotBlob() {\<newline>'';
          fp2 = fprintf fp1 ''  return &blob;\<newline>'';
          fp3 = fprintf fp2 ''}\<newline>\<newline>'';
          fp4 = fprintf fp3 ''}  // namespace internal\<newline>''
      in fprintf fp4 ''}  // namespace v8\<newline>'')"

subsection \<open>The process and its environment\<close>

text \<open>
  The program talks to the file system, to its two output streams and to the engine. The
  state it can change is a \<open>world\<close>: the files by path, what was printed, and the log of
  \<^verbatim>\<open>FOpen\<close> calls. What it cannot decide is an \<open>env\<close>: whether an open succeeds, how many
  items \<^verbatim>\<open>fwrite\<close> and each \<^verbatim>\<open>fread\<close> call transfer, whether \<^verbatim>\<open>ferror\<close> is set after a
  read, the value of \<^verbatim>\<open>errno\<close>, the content of fresh memory, and the engine's two
  operations. \<^verbatim>\<open>exit\<close> and an assertion failure end the process: a function that can end it
  returns \<open>Inl\<close> of the outcome and the world left behind.
\<close>

datatype outcome = Exit int | Abort

record world =
  files :: "string \<rightharpoonup> byte list"
  stdout :: string
  stderr :: string
  opened :: "(string \<times> string) list"

record StartupData =
  data :: "byte list option"
  raw_size :: int

record env =
  fopen_ok :: "string \<Rightarrow> string \<Rightarrow> bool"
  errno :: int
  fwrite_count :: "nat \<Rightarrow> nat"
  fread_count :: "nat \<Rightarrow> nat \<Rightarrow> nat"
  fread_error :: "nat \<Rightarrow> bool"
  uninit :: "nat \<Rightarrow> byte"
  CreateSnapshotDataBlob :: "byte list option \<Rightarrow> StartupData"
  WarmUpSnapshotDataBlob :: "StartupData \<Rightarrow> byte list \<Rightarrow> StartupData"
  help_text :: string

definition printf :: "world \<Rightarrow> string \<Rightarrow> world" where
  "printf w s = w\<lparr>stdout := stdout w @ s\<rparr>"

text \<open>Modelled from the spec: \<^verbatim>\<open>i::PrintF\<close> is defined outside this file; the
  specification has it emit a diagnostic message, taken here to go to standard output.\<close>

definition PrintF :: "world \<Rightarrow> string \<Rightarrow> world" where
  "PrintF w s = printf w s"

text \<open>\<^verbatim>\<open>fprintf(stderr, ...)\<close>.\<close>

definition eprintf :: "world \<Rightarrow> string \<Rightarrow> world" where
  "eprintf w s = w\<lparr>stderr := stderr w @ s\<rparr>"

text \<open>Modelled from the spec: \<^verbatim>\<open>v8::base::OS::FOpen\<close> is defined outside this file; the
  specification has it open the path for binary write or binary read and fail with an OS
  error code. The call is logged; whether it succeeds is the environment's; mode
  \<^verbatim>\<open>"wb"\<close> creates the file empty (or truncates it) when it succeeds, any other mode needs
  the file to exist.\<close>

definition FOpen :: "env \<Rightarrow> string \<Rightarrow> string \<Rightarrow> world \<Rightarrow> bool \<times> world" where
  "FOpen e path mode w =
     (let w1 = w\<lparr>opened := opened w @ [(path, mode)]\<rparr> in
      if mode = ''wb'' then
        (if fopen_ok e path mode then (True, w1\<lparr>files := (files w1)(path \<mapsto> [])\<rparr>)
         else (False, w1))
      else (fopen_ok e path mode \<and> files w path \<noteq> None, w1))"

text \<open>\<^verbatim>\<open>fwrite(buf, 1, n, fp)\<close>: at most \<open>n\<close> bytes reach the file, as many as the
  environment lets through; the count is returned.\<close>

definition fwrite :: "env \<Rightarrow> byte list \<Rightarrow> nat \<Rightarrow> string \<Rightarrow> world \<Rightarrow> nat \<times> world" where
  "fwrite e buf n path w =
     (let written = min (fwrite_count e n) n;
          old = (case files w path of None \<Rightarrow> [] | Some c \<Rightarrow> c)
      in (written, w\<lparr>files := (files w)(path \<mapsto> old @ take written buf)\<rparr>))"

text \<open>Closing a text stream leaves its text in the file.\<close>

definition fclose_text :: "string \<Rightarrow> string \<Rightarrow> world \<Rightarrow> world" where
  "fclose_text path fp w = w\<lparr>files := (files w)(path \<mapsto> map of_char fp)\<rparr>"

text \<open>\<^verbatim>\<open>remove(path)\<close>; the source ignores its result, the model takes it to succeed.\<close>

definition remove :: "string \<Rightarrow> world \<Rightarrow> world" where
  "remove path w = w\<lparr>files := (files w)(path := None)\<rparr>"

subsection \<open>SnapshotWriter\<close>

text \<open>The members \<^verbatim>\<open>snapshot_cpp_path_\<close> and \<^verbatim>\<open>snapshot_blob_path_\<close>, \<open>None\<close> for
  \<^verbatim>\<open>NULL\<close> (the names lose the final underscore).\<close>

record SnapshotWriter =
  snapshot_cpp_path :: "string option"
  snapshot_blob_path :: "string option"

definition SnapshotWriter_new :: SnapshotWriter where
  "SnapshotWriter_new = \<lparr>snapshot_cpp_path = None, snapshot_blob_path = None\<rparr>"

definition SetSnapshotFile :: "SnapshotWriter \<Rightarrow> string \<Rightarrow> SnapshotWriter" where
  "SetSnapshotFile sw snapshot_cpp_file = sw\<lparr>snapshot_cpp_path := Some snapshot_cpp_file\<rparr>"

definition SetStartupBlobFile :: "SnapshotWriter \<Rightarrow> string \<Rightarrow> SnapshotWriter" where
  "SetStartupBlobFile sw snapshot_blob_file = sw\<lparr>snapshot_blob_path := Some snapshot_blob_file\<rparr>"

definition GetFileDescriptorOrDie :: "env \<Rightarrow> string \<Rightarrow> world \<Rightarrow> (outcome \<times> world) + world" where
  "GetFileDescriptorOrDie e filename w =
     (case FOpen e filename ''wb'' w of
        (ok, w1) \<Rightarrow>
          if \<not> ok then
            Inl (Exit 1, PrintF w1 (''Unable to open file '' @ [CHR 0x22] @ filename
                                     @ [CHR 0x22] @ '' for writing.\<newline>''))
          else Inr w1)"

definition MaybeWriteStartupBlob ::
  "env \<Rightarrow> SnapshotWriter \<Rightarrow> byte list \<Rightarrow> world \<Rightarrow> (outcome \<times> world) + world" where
  "MaybeWriteStartupBlob e sw blob w =
     (case snapshot_blob_path sw of
        None \<Rightarrow> Inr w
      | Some path \<Rightarrow>
          (case GetFileDescriptorOrDie e path w of
             Inl x \<Rightarrow> Inl x
           | Inr w1 \<Rightarrow>
               (case fwrite e blob (length blob) path w1 of
                  (written, w2) \<Rightarrow>
                    if written \<noteq> length blob then
                      Inl (Exit 1,
                           remove path (PrintF w2 ''Writing snapshot file failed.. Aborting.\<newline>''))
                    else Inr w2)))"

definition MaybeWriteSnapshotFile ::
  "env \<Rightarrow> SnapshotWriter \<Rightarrow> byte list \<Rightarrow> world \<Rightarrow> (outcome \<times> world) + world" where
  "MaybeWriteSnapshotFile e sw blob w =
     (case snapshot_cpp_path sw of
        None \<Rightarrow> Inr w
      | Some path \<Rightarrow>
          (case GetFileDescriptorOrDie e path w of
             Inl x \<Rightarrow> Inl x
           | Inr w1 \<Rightarrow>
               (let fp1 = WriteFilePrefix [];
                    fp2 = WriteData fp1 blob;
                    fp3 = WriteFileSuffix fp2
                in Inr (fclose_text path fp3 w1))))"

text \<open>Modelled from the spec: \<^verbatim>\<open>i::Vector\<close> is declared outside this file; the
  specification's blob is a byte buffer plus its length. The vector
  \<^verbatim>\<open>blob_vector(blob.data, blob.raw_size)\<close> spans the first \<^verbatim>\<open>raw_size\<close> bytes of the
  buffer. (A \<^verbatim>\<open>raw_size\<close> beyond the buffer would read outside it; the engine returns the
  size of the buffer it allocated.)\<close>

definition Vector :: "byte list option \<Rightarrow> int \<Rightarrow> byte list" where
  "Vector d n = (case d of None \<Rightarrow> [] | Some buf \<Rightarrow> take (nat n) buf)"

definition WriteSnapshot ::
  "env \<Rightarrow> SnapshotWriter \<Rightarrow> StartupData \<Rightarrow> world \<Rightarrow> (outcome \<times> world) + world" where
  "WriteSnapshot e sw blob w =
     (let blob_vector = Vector (data blob) (raw_size blob) in
      case MaybeWriteSnapshotFile e sw blob_vector w of
        Inl x \<Rightarrow> Inl x
      | Inr w1 \<Rightarrow> MaybeWriteStartupBlob e sw blob_vector w1)"

subsection \<open>GetExtraCode\<close>

text \<open>A C string is the characters before its terminator.\<close>

definition strlen :: "string \<Rightarrow> nat" where
  "strlen s = length s"

text \<open>
  \<^verbatim>\<open>for (size_t i = 0; i < size;) {
    size_t read = fread(&chars[i], 1, size - i, file);
    if (ferror(file)) { fprintf(stderr, "Failed to read '%s': errno %d\n", ...); exit(1); }
    i += read;
  }\<close>
  The \<open>k\<close>-th call of \<^verbatim>\<open>fread\<close> copies as many bytes as the environment grants, at most
  those asked for and those left in the file, from the file position (which is \<open>i\<close>, the
  file having been rewound) to \<^verbatim>\<open>&chars[i]\<close>. A call that reads nothing and sets no error
  leaves \<open>i\<close> where it was, so the loop need not end: no result is \<open>None\<close>.
\<close>

partial_function (option) GetExtraCode_loop ::
  "env \<Rightarrow> string \<Rightarrow> byte list \<Rightarrow> nat \<Rightarrow> nat \<Rightarrow> nat \<Rightarrow> byte list \<Rightarrow> world
     \<Rightarrow> ((outcome \<times> world) + byte list) option" where
  "GetExtraCode_loop e filename content k i fsize chars w =
     (if i < fsize then
        (let read = min (fread_count e k (fsize - i)) (min (fsize - i) (length content - i));
             chars1 = take i chars @ take read (drop i content) @ drop (i + read) chars
         in if fread_error e k then
              Some (Inl (Exit 1,
                eprintf w (''Failed to read '' @ [CHR 0x27] @ filename @ [CHR 0x27]
                           @ '': errno '' @ fmt_d (errno e) @ ''\<newline>'')))
            else GetExtraCode_loop e filename content (k + 1) (i + read) fsize chars1 w)
      else Some (Inr chars))"

text \<open>The file name is \<open>None\<close> for \<^verbatim>\<open>NULL\<close>; so is the result. The size \<open>fsize\<close> is what
  \<^verbatim>\<open>ftell\<close> reports at the end of the file; \<^verbatim>\<open>new char[size + 1]\<close> is fresh memory of
  unknown content.\<close>

definition GetExtraCode ::
  "env \<Rightarrow> string option \<Rightarrow> string \<Rightarrow> world
     \<Rightarrow> ((outcome \<times> world) + (byte list option \<times> world)) option" where
  "GetExtraCode e filename description w =
     (case filename of
        None \<Rightarrow> Some (Inr (None, w))
      | Some fn \<Rightarrow>
          if strlen fn = 0 then Some (Inr (None, w))
          else
            (let w1 = printf w (''Loading script for '' @ description @ '': '' @ fn @ ''\<newline>'') in
             case FOpen e fn ''rb'' w1 of
               (ok, w2) \<Rightarrow>
                 if \<not> ok then
                   Some (Inl (Exit 1,
                     eprintf w2 (''Failed to open '' @ [CHR 0x27] @ fn @ [CHR 0x27]
                                 @ '': errno '' @ fmt_d (errno e) @ ''\<newline>'')))
                 else
                   (let content = (case files w2 fn of None \<Rightarrow> [] | Some c \<Rightarrow> c);
                        fsize = length content;
                        chars = (map (uninit e) [0..<fsize + 1])[fsize := 0]
                    in case GetExtraCode_loop e fn content 0 0 fsize chars w2 of
                         None \<Rightarrow> None
                       | Some (Inl x) \<Rightarrow> Some (Inl x)
                       | Some (Inr chars') \<Rightarrow> Some (Inr (Some chars', w2)))))"

subsection \<open>main\<close>

text \<open>The flags as \<^verbatim>\<open>SetFlagsFromCommandLine\<close> leaves them, with its result; \<open>argv\<close> is
  what it leaves of the command line. Setting up and tearing down the platform and the
  engine, and releasing the buffers, leave the world as it is; the engine's two operations
  are the environment's. \<^verbatim>\<open>return\<close> from \<^verbatim>\<open>main\<close> ends the process like \<^verbatim>\<open>exit\<close>.\<close>

record flags =
  parse_result :: int
  FLAG_help :: bool
  FLAG_startup_src :: "string option"
  FLAG_startup_blob :: "string option"

text \<open>Modelled from the spec: the macro \<^verbatim>\<open>CHECK\<close> is declared outside this file; the
  specification describes it as an unconditional process abort via assertion when its
  condition is false.\<close>

definition CHECK :: "bool \<Rightarrow> world \<Rightarrow> (outcome \<times> world) + world" where
  "CHECK cond w = (if cond then Inr w else Inl (Abort, w))"

definition main :: "env \<Rightarrow> flags \<Rightarrow> string list \<Rightarrow> world \<Rightarrow> (outcome \<times> world) option" where
  "main e fl argv w =
     (let argc = length argv; result = parse_result fl in
      if result > 0 \<or> argc > 3 \<or> FLAG_help fl then
        (let w1 = printf w (''Usage: '' @ (if argv = [] then ''(null)'' else hd argv)
                            @ '' --startup_src=... --startup_blob=... [extras]\<newline>'');
             w2 = printf w1 (help_text e)
         in Some (Exit (if FLAG_help fl then 0 else 1), w2))
      else
        (let writer = SnapshotWriter_new;
             writer = (case FLAG_startup_src fl of
                         Some f \<Rightarrow> SetSnapshotFile writer f | None \<Rightarrow> writer);
             writer = (case FLAG_startup_blob fl of
                         Some f \<Rightarrow> SetStartupBlobFile writer f | None \<Rightarrow> writer)
         in case GetExtraCode e (if argc \<ge> 2 then Some (argv ! 1) else None) ''embedding'' w of
              None \<Rightarrow> None
            | Some (Inl x) \<Rightarrow> Some x
            | Some (Inr (embed_script, w1)) \<Rightarrow>
                (let blob = CreateSnapshotDataBlob e embed_script in
                 case GetExtraCode e (if argc \<ge> 3 then Some (argv ! 2) else None) ''warm up'' w1 of
                   None \<Rightarrow> None
                 | Some (Inl x) \<Rightarrow> Some x
                 | Some (Inr (warmup_script, w2)) \<Rightarrow>
                     (let blob = (case warmup_script of
                                    None \<Rightarrow> blob
                                  | Some ws \<Rightarrow> WarmUpSnapshotDataBlob e blob ws)
                      in case CHECK (data blob \<noteq> None) w2 of
                           Inl x \<Rightarrow> Some x
                         | Inr w3 \<Rightarrow>
                             (case WriteSnapshot e writer blob w3 of
                                Inl x \<Rightarrow> Some x
                              | Inr w4 \<Rightarrow> Some (Exit 0, w4))))))"

section \<open>The specification's notions\<close>

subsection \<open>The formatting rule of the byte-array body\<close>

text \<open>
  The rule as the specification words it: before the byte at an index whose low 5 bits
  are all set a line break, before every byte but the first a comma, then the byte in
  decimal; after the last byte one line break.
\<close>

definition body_item :: "nat \<Rightarrow> byte \<Rightarrow> string" where
  "body_item i b =
     (if i mod 32 = 31 then ''\<newline>'' else []) @ (if i \<noteq> 0 then '','' else []) @ fmt_u (unat b)"

definition body_rule :: "byte list \<Rightarrow> string" where
  "body_rule blob = concat (map (\<lambda>i. body_item i (blob ! i)) [0..<length blob]) @ ''\<newline>''"

definition line_breaks :: "string \<Rightarrow> nat" where
  "line_breaks s = length (filter (\<lambda>c. c = CHR 0x0A) s)"

subsection \<open>Reading the body back\<close>

text \<open>
  The decoder of the specification: the text is split at commas and line breaks, blanks
  (space, tab, carriage return) are skipped, what is left between two separators is a
  token unless it is empty, and every token must be an unsigned decimal numeral.
\<close>

definition is_digit :: "char \<Rightarrow> bool" where
  "is_digit c = (48 \<le> (of_char c :: nat) \<and> (of_char c :: nat) \<le> 57)"

definition digit_val :: "char \<Rightarrow> nat" where
  "digit_val c = of_char c - 48"

definition parse_uint :: "string \<Rightarrow> nat option" where
  "parse_uint s =
     (if s \<noteq> [] \<and> list_all is_digit s
      then Some (foldl (\<lambda>a c. 10 * a + digit_val c) 0 s) else None)"

definition is_separator :: "char \<Rightarrow> bool" where
  "is_separator c = (c = CHR '','' \<or> c = CHR 0x0A)"

definition is_blank :: "char \<Rightarrow> bool" where
  "is_blank c = (c = CHR '' '' \<or> c = CHR 0x09 \<or> c = CHR 0x0D)"

fun split_body :: "string \<Rightarrow> string \<Rightarrow> string list" where
  "split_body cur [] = (if cur = [] then [] else [cur])"
| "split_body cur (c # cs) =
     (if is_separator c then (if cur = [] then [] else [cur]) @ split_body [] cs
      else if is_blank c then split_body cur cs
      else split_body (cur @ [c]) cs)"

definition parse_body :: "string \<Rightarrow> nat list option" where
  "parse_body s = those (map parse_uint (split_body [] s))"

text \<open>The blob of the specification's concrete scenario: the bytes 0, 1, ..., 33.\<close>

definition blob34 :: "byte list" where
  "blob34 = [0, 1, 2, 3, 4, 5, 6, 7, 8, 9, 10, 11, 12, 13, 14, 15, 16, 17, 18, 19, 20, 21, 22, 23, 24, 25, 26, 27, 28, 29, 30, 31, 32, 33]"

subsection \<open>Concrete inputs\<close>

text \<open>An empty file system, an environment in which every call succeeds in full, and
  variants of it: a short \<^verbatim>\<open>fwrite\<close>, an engine that returns no buffer, a failing
  \<^verbatim>\<open>fread\<close>; a command line's flags; a file system that holds a two-byte script.\<close>

definition world0 :: world where
  "world0 = \<lparr>files = Map.empty, stdout = [], stderr = [], opened = []\<rparr>"

definition env0 :: env where
  "env0 = \<lparr>fopen_ok = (\<lambda>path mode. True), errno = 0, fwrite_count = (\<lambda>n. n),
            fread_count = (\<lambda>k n. n), fread_error = (\<lambda>k. False), uninit = (\<lambda>i. 255),
            CreateSnapshotDataBlob = (\<lambda>s. \<lparr>data = Some [1, 2, 3], raw_size = 3\<rparr>),
            WarmUpSnapshotDataBlob = (\<lambda>b s. b), help_text = []\<rparr>"

definition env_short :: env where
  "env_short = env0\<lparr>fwrite_count := (\<lambda>n. n - 1)\<rparr>"

definition flags0 :: flags where
  "flags0 = \<lparr>parse_result = 0, FLAG_help = False, FLAG_startup_src = Some ''snapshot.cc'',
              FLAG_startup_blob = Some ''snapshot_blob.bin''\<rparr>"

definition env_null :: env where
  "env_null = env0\<lparr>CreateSnapshotDataBlob := (\<lambda>s. \<lparr>data = None, raw_size = 0\<rparr>)\<rparr>"

definition world_script :: world where
  "world_script = world0\<lparr>files := [''warmup.js'' \<mapsto> [104, 105]]\<rparr>"

definition env_read_error :: env where
  "env_read_error = env0\<lparr>fread_error := (\<lambda>k. True), errno := 5\<rparr>"

section \<open>Properties of the byte-array body\<close>

subsection \<open>The bit test\<close>

lemma mask5: "(0x1f :: 32 word) = mask 5" by (simp add: mask_eq_exp_minus_1)
lemma unat_of_nat_mod32: "unat (word_of_nat i mod 32 :: 32 word) = i mod 32"
  by (simp add: unat_mod unat_of_nat mod_mod_cancel)
lemma unat_and_0x1f: "unat ((word_of_nat i :: 32 word) AND 0x1f) = i mod 32"
  unfolding mask5
  by (simp add: unsigned_and_eq flip: take_bit_eq_mask add: unsigned_take_bit_eq unsigned_of_nat take_bit_eq_mod unat_of_nat_mod32)
lemma bit_test: "((word_of_nat i :: 32 word) AND 0x1f = 0x1f) = (i mod 32 = 31)"
proof -
  have "((word_of_nat i :: 32 word) AND 0x1f = 0x1f) = (unat ((word_of_nat i :: 32 word) AND 0x1f) = unat (0x1f :: 32 word))"
    by (simp only: word_unat_eq_iff)
  then show ?thesis by (simp add: unat_and_0x1f)
qed

subsection \<open>The loop as a concatenation of items\<close>

lemma loop_step:
  "i < length blob \<Longrightarrow>
   WriteSnapshotData_loop i blob fp = WriteSnapshotData_loop (i + 1) blob (fp @ body_item i (blob ! i))"
  by (subst WriteSnapshotData_loop.simps) (simp add: fprintf_def body_item_def bit_test)

lemma loop_stop: "\<not> i < length blob \<Longrightarrow> WriteSnapshotData_loop i blob fp = fp"
  by (subst WriteSnapshotData_loop.simps) simp

lemma loop_eq:
  "WriteSnapshotData_loop i blob fp = fp @ concat (map (\<lambda>j. body_item j (blob ! j)) [i..<length blob])"
proof (induction "length blob - i" arbitrary: i fp)
  case 0
  then show ?case by (simp add: loop_stop)
next
  case (Suc d)
  then have lt: "i < length blob" and d: "d = length blob - (i + 1)" by simp_all
  have upt: "[i..<length blob] = i # [i + 1..<length blob]"
    using lt by (simp add: upt_conv_Cons)
  show ?case
    by (simp only: loop_step [OF lt] Suc.hyps(1) [OF d] upt) simp
qed

subsection \<open>Decimal numerals\<close>

lemma digit_char_ok: "d < 10 \<Longrightarrow> digit_val (digit_char d) = d \<and> is_digit (digit_char d)"
proof -
  assume "d < 10"
  then have "d \<in> {0,1,2,3,4,5,6,7,8,9}" by auto
  then show ?thesis by (auto simp: digit_val_def digit_char_def is_digit_def)
qed

lemma fmt_u_digits: "list_all is_digit (fmt_u n) \<and> fmt_u n \<noteq> []"
proof (induction n rule: fmt_u.induct)
  case (1 n)
  show ?case
  proof (cases "n < 10")
    case True
    then show ?thesis by (subst (1 2) fmt_u.simps) (simp add: digit_char_ok)
  next
    case False
    then show ?thesis using 1 by (subst (1 2) fmt_u.simps) (simp add: digit_char_ok)
  qed
qed

lemma fmt_u_value: "foldl (\<lambda>a c. 10 * a + digit_val c) 0 (fmt_u n) = n"
proof (induction n rule: fmt_u.induct)
  case (1 n)
  show ?case
  proof (cases "n < 10")
    case True
    then show ?thesis by (subst fmt_u.simps) (simp add: digit_char_ok)
  next
    case False
    then show ?thesis using 1 by (subst fmt_u.simps) (simp add: digit_char_ok)
  qed
qed

lemma parse_uint_fmt_u: "parse_uint (fmt_u n) = Some n"
  by (simp add: parse_uint_def fmt_u_digits fmt_u_value)

subsection \<open>Splitting the body\<close>

lemma digit_plain: "is_digit c \<Longrightarrow> \<not> is_separator c \<and> \<not> is_blank c"
  by (auto simp: is_digit_def is_separator_def is_blank_def)

lemma split_digits:
  "list_all is_digit ds \<Longrightarrow> split_body cur (ds @ rest) = split_body (cur @ ds) rest"
  by (induction ds arbitrary: cur) (simp_all add: digit_plain)

lemma split_items:
  "\<forall>j \<in> set js. j \<noteq> 0 \<Longrightarrow>
   split_body cur (concat (map (\<lambda>j. body_item j (f j)) js) @ ''\<newline>'')
     = (if cur = [] then [] else [cur]) @ map (\<lambda>j. fmt_u (unat (f j))) js"
proof (induction js arbitrary: cur)
  case Nil
  show ?case by (simp add: is_separator_def)
next
  case (Cons j js)
  then have j: "j \<noteq> 0" and rest: "\<forall>j \<in> set js. j \<noteq> 0" by simp_all
  have step: "split_body [] (fmt_u (unat (f j)) @ concat (map (\<lambda>j. body_item j (f j)) js) @ ''\<newline>'')
      = fmt_u (unat (f j)) # map (\<lambda>j. fmt_u (unat (f j))) js"
    using Cons.IH [OF rest, of "fmt_u (unat (f j))"]
    by (simp add: split_digits fmt_u_digits)
  show ?case
    using j step by (simp add: body_item_def is_separator_def)
qed

lemma those_map_Some: "those (map Some xs) = Some xs"
  by (induction xs) simp_all

lemma split_body_rule:
  "split_body [] (body_rule blob) = map (\<lambda>b. fmt_u (unat b)) blob"
proof (cases blob)
  case Nil
  then show ?thesis by (simp add: body_rule_def is_separator_def)
next
  case (Cons b bs)
  have "0 < length blob" using Cons by simp
  from upt_conv_Cons [OF this]
  have upt: "[0..<length blob] = 0 # [1..<length blob]" by simp
  have pos: "\<forall>j \<in> set [1..<length blob]. j \<noteq> 0" by simp
  have "split_body [] (body_rule blob)
      = split_body (fmt_u (unat (blob ! 0))) (concat (map (\<lambda>j. body_item j (blob ! j)) [1..<length blob]) @ ''\<newline>'')"
    using split_digits [of "fmt_u (unat (blob ! 0))" "[]"]
    by (simp add: body_rule_def upt body_item_def fmt_u_digits)
  also have "\<dots> = map (\<lambda>j. fmt_u (unat (blob ! j))) [0..<length blob]"
    using split_items [OF pos, of "fmt_u (unat (blob ! 0))" "\<lambda>j. blob ! j"]
    by (simp add: fmt_u_digits upt)
  also have "\<dots> = map (\<lambda>b. fmt_u (unat b)) blob"
    by (rule nth_equalityI) simp_all
  finally show ?thesis .
qed

lemma parse_body_rule: "parse_body (body_rule blob) = Some (map unat blob)"
proof -
  have "map parse_uint (map (\<lambda>b. fmt_u (unat b)) blob) = map Some (map unat blob)"
    by (simp add: parse_uint_fmt_u)
  then show ?thesis
    by (simp only: parse_body_def split_body_rule those_map_Some)
qed

lemma WriteSnapshotData_rule: "WriteSnapshotData fp blob = fp @ body_rule blob"
  by (simp add: WriteSnapshotData_def fprintf_def loop_eq body_rule_def)

subsection \<open>Counting line breaks\<close>

lemma fmt_u_no_break: "filter (\<lambda>c. c = CHR 0x0A) (fmt_u n) = []"
proof -
  have "\<forall>c \<in> set (fmt_u n). c \<noteq> CHR 0x0A"
    using fmt_u_digits [of n] digit_plain by (auto simp: list_all_iff is_separator_def)
  then show ?thesis by (simp add: filter_empty_conv)
qed

lemma line_breaks_items:
  "line_breaks (concat (map (\<lambda>j. body_item j (f j)) [0..<n])) = n div 32"
proof (induction n)
  case 0
  show ?case by (simp add: line_breaks_def)
next
  case (Suc n)
  have "Suc n div 32 = n div 32 + (if n mod 32 = 31 then 1 else 0)"
    by (simp add: div_Suc mod_Suc)
  then show ?case
    using Suc by (simp add: line_breaks_def body_item_def fmt_u_no_break)
qed

lemma body34: "WriteSnapshotData [] blob34 = ''0,1,2,3,4,5,6,7,8,9,10,11,12,13,14,15,16,17,18,19,20,21,22,23,24,25,26,27,28,29,30\<newline>,31,32,33\<newline>''"
  unfolding blob34_def by code_simp

subsection \<open>The claims about the body\<close>

text \<open>
  C1. For every blob whose length fits an \<^verbatim>\<open>int\<close>, reading back the body that
  \<^verbatim>\<open>WriteSnapshotData\<close> emits (split at commas and line breaks, blanks ignored) gives the
  blob's bytes in order: as many values as the blob has bytes, each between 0 and 255.
\<close>

theorem array_literal_decoding:
  assumes "length blob < 2 ^ 31"
  shows "parse_body (WriteSnapshotData [] blob) = Some (map unat blob)
         \<and> length (map unat blob) = length blob
         \<and> (\<forall>v \<in> set (map unat blob). 0 \<le> v \<and> v \<le> 255)"
proof -
  have "parse_body (WriteSnapshotData [] blob) = Some (map unat blob)"
    by (simp add: WriteSnapshotData_rule parse_body_rule)
  moreover have "unat b \<le> 255" for b :: byte
    using unsigned_less [of b, where 'a = nat] by simp
  ultimately show ?thesis by simp
qed

theorem array_literal_decoding_witness:
  "length [7, 200, 255 :: byte] < 2 ^ 31
   \<and> parse_body (WriteSnapshotData [] [7, 200, 255]) = Some [7, 200, 255]"
  using array_literal_decoding [of "[7, 200, 255]"] by simp

text \<open>
  C2. For every blob whose length fits an \<^verbatim>\<open>int\<close>, \<^verbatim>\<open>WriteSnapshotData\<close> appends to the
  stream exactly the body of the formatting rule: for the bytes in index order, a line
  break before the byte at each index whose low 5 bits are all set, a comma before every
  byte but the first, the byte as a decimal numeral that denotes its unsigned value, which
  is at most 255, and one line break after the last byte.
\<close>

theorem body_follows_formatting_rule:
  assumes "length blob < 2 ^ 31"
  shows "WriteSnapshotData fp blob = fp @ body_rule blob
         \<and> (\<forall>b \<in> set blob. parse_uint (fmt_u (unat b)) = Some (unat b) \<and> unat b \<le> 255)"
proof -
  have "unat b \<le> 255" for b :: byte
    using unsigned_less [of b, where 'a = nat] by simp
  then show ?thesis
    by (simp add: WriteSnapshotData_rule parse_uint_fmt_u)
qed

theorem body_follows_formatting_rule_witness:
  "length [7, 200 :: byte] < 2 ^ 31
   \<and> WriteSnapshotData ''{'' [7, 200] = ''{'' @ body_rule [7, 200]
   \<and> parse_uint (fmt_u (unat (200 :: byte))) = Some 200"
  using body_follows_formatting_rule [of "[7, 200]" "''{''"] by simp

text \<open>
  C3, as the specification states it: for the bytes 0, 1, ..., 33 the body begins with
  the values 0 to 31 separated by commas, then a line break, then \<^verbatim>\<open>,32,33\<close>. The code
  breaks the line before the byte at index 31, so the body does not begin that way.
\<close>

theorem scenario_34_counterexample:
  "take (length ''0,1,2,3,4,5,6,7,8,9,10,11,12,13,14,15,16,17,18,19,20,21,22,23,24,25,26,27,28,29,30,31\<newline>,32,33'')
        (WriteSnapshotData [] blob34)
     \<noteq> ''0,1,2,3,4,5,6,7,8,9,10,11,12,13,14,15,16,17,18,19,20,21,22,23,24,25,26,27,28,29,30,31\<newline>,32,33''"
  by (simp add: body34)

text \<open>
  C3, amended: for the bytes 0, 1, ..., 33 the body is the values 0 to 30 separated by
  commas, a line break, then \<^verbatim>\<open>,31,32,33\<close> and the closing line break; the length constant
  is emitted as 34.
\<close>

theorem scenario_34_output:
  "WriteSnapshotData [] blob34 = ''0,1,2,3,4,5,6,7,8,9,10,11,12,13,14,15,16,17,18,19,20,21,22,23,24,25,26,27,28,29,30\<newline>,31,32,33\<newline>''
   \<and> WriteData [] blob34 =
       ''static const byte blob_data[] = {\<newline>'' @ WriteSnapshotData [] blob34
       @ ''};\<newline>static const int blob_size = 34;\<newline>static const v8::StartupData blob =\<newline>{ (const char*) blob_data, blob_size };\<newline>''"
proof -
  have len: "length blob34 = 34" by (simp add: blob34_def)
  have "WriteSnapshotData ''static const byte blob_data[] = {\<newline>'' blob34 =
      ''static const byte blob_data[] = {\<newline>'' @ WriteSnapshotData [] blob34"
    by (simp add: WriteSnapshotData_rule)
  then show ?thesis
    by (simp add: WriteData_def fprintf_def body34 len fmt_d_def fmt_u.simps digit_char_def)
qed

text \<open>
  C4, as the specification states it: for a blob of \<open>N > 0\<close> bytes the number of line
  breaks in the body is \<open>(N + 31 - 1) div 32\<close>. Counting the breaks the loop puts between
  the bytes, two bytes give none where the formula gives one; counting the closing break
  as well, one byte gives one where the formula gives none.
\<close>

theorem line_break_count_counterexample:
  "line_breaks (WriteSnapshotData_loop 0 [5, 6] []) \<noteq> (length [5, 6 :: byte] + 31 - 1) div 32
   \<and> line_breaks (WriteSnapshotData [] [5]) \<noteq> (length [5 :: byte] + 31 - 1) div 32"
  by code_simp

text \<open>
  C4, amended: for a blob of \<open>N > 0\<close> bytes, with \<open>N\<close> fitting an \<^verbatim>\<open>int\<close>, the loop of
  \<^verbatim>\<open>WriteSnapshotData\<close> emits \<open>N div 32\<close> line breaks (one before each of the indices 31,
  63, 95, ... below \<open>N\<close>), and one closing line break follows, \<open>N div 32 + 1\<close> in all; what
  is appended to the stream is determined by the blob's bytes alone.
\<close>

theorem line_break_count:
  assumes "0 < length blob" and "length blob < 2 ^ 31"
  shows "line_breaks (WriteSnapshotData_loop 0 blob []) = length blob div 32
         \<and> WriteSnapshotData_loop 0 blob [] @ ''\<newline>'' = WriteSnapshotData [] blob
         \<and> line_breaks (WriteSnapshotData [] blob) = length blob div 32 + 1
         \<and> WriteSnapshotData fp blob = fp @ WriteSnapshotData [] blob"
proof -
  have inner: "line_breaks (WriteSnapshotData_loop 0 blob []) = length blob div 32"
    by (simp add: loop_eq line_breaks_items)
  have closing: "WriteSnapshotData [] blob = WriteSnapshotData_loop 0 blob [] @ ''\<newline>''"
    by (simp add: WriteSnapshotData_def fprintf_def)
  have total: "line_breaks (WriteSnapshotData [] blob) = length blob div 32 + 1"
    using inner by (simp add: closing line_breaks_def)
  have "WriteSnapshotData fp blob = fp @ WriteSnapshotData [] blob"
    by (simp add: WriteSnapshotData_rule)
  with inner closing [symmetric] total show ?thesis by blast
qed

theorem line_break_count_witness:
  "0 < length blob34 \<and> length blob34 < 2 ^ 31
   \<and> line_breaks (WriteSnapshotData_loop 0 blob34 []) = 1
   \<and> line_breaks (WriteSnapshotData [] blob34) = 2
   \<and> WriteSnapshotData ''{'' blob34 = ''{'' @ WriteSnapshotData [] blob34"
proof -
  have len: "length blob34 = 34" by (simp add: blob34_def)
  show ?thesis using line_break_count [of blob34 "''{''"] by (simp add: len)
qed

section \<open>Properties of the writer, the loader and the driver\<close>

subsection \<open>Absent output paths\<close>

lemma MaybeWriteStartupBlob_skip:
  "snapshot_blob_path sw = None \<Longrightarrow> MaybeWriteStartupBlob e sw v w = Inr w"
  by (simp add: MaybeWriteStartupBlob_def)

lemma MaybeWriteSnapshotFile_skip:
  "snapshot_cpp_path sw = None \<Longrightarrow> MaybeWriteSnapshotFile e sw v w = Inr w"
  by (simp add: MaybeWriteSnapshotFile_def)

lemma WriteSnapshot_no_cpp:
  "snapshot_cpp_path sw = None \<Longrightarrow>
   WriteSnapshot e sw blob w = MaybeWriteStartupBlob e sw (Vector (data blob) (raw_size blob)) w"
  by (simp add: WriteSnapshot_def MaybeWriteSnapshotFile_skip)

lemma WriteSnapshot_no_blob:
  "snapshot_blob_path sw = None \<Longrightarrow>
   WriteSnapshot e sw blob w = MaybeWriteSnapshotFile e sw (Vector (data blob) (raw_size blob)) w"
  by (cases "MaybeWriteSnapshotFile e sw (Vector (data blob) (raw_size blob)) w")
     (simp_all add: WriteSnapshot_def MaybeWriteStartupBlob_skip)

text \<open>
  C7. With neither output path set, \<^verbatim>\<open>WriteSnapshot\<close> returns normally and leaves the world
  as it was: no file opened, written or removed, nothing printed. Each sub-write returns
  at once, without error, when its own path is absent, whatever the other path is.
\<close>

theorem absent_paths_no_effect:
  "WriteSnapshot e \<lparr>snapshot_cpp_path = None, snapshot_blob_path = None\<rparr> blob w = Inr w
   \<and> WriteSnapshot e SnapshotWriter_new blob w = Inr w
   \<and> MaybeWriteStartupBlob e \<lparr>snapshot_cpp_path = c, snapshot_blob_path = None\<rparr> v w = Inr w
   \<and> MaybeWriteSnapshotFile e \<lparr>snapshot_cpp_path = None, snapshot_blob_path = b\<rparr> v w = Inr w
   \<and> WriteSnapshot e \<lparr>snapshot_cpp_path = None, snapshot_blob_path = b\<rparr> blob w
       = MaybeWriteStartupBlob e \<lparr>snapshot_cpp_path = None, snapshot_blob_path = b\<rparr>
           (Vector (data blob) (raw_size blob)) w
   \<and> WriteSnapshot e \<lparr>snapshot_cpp_path = c, snapshot_blob_path = None\<rparr> blob w
       = MaybeWriteSnapshotFile e \<lparr>snapshot_cpp_path = c, snapshot_blob_path = None\<rparr>
           (Vector (data blob) (raw_size blob)) w"
  by (simp add: WriteSnapshot_no_cpp WriteSnapshot_no_blob MaybeWriteStartupBlob_skip
        MaybeWriteSnapshotFile_skip SnapshotWriter_new_def)

subsection \<open>The binary sub-write\<close>

lemma open_wb_ok:
  "fopen_ok e path ''wb'' \<Longrightarrow>
   GetFileDescriptorOrDie e path w
     = Inr (w\<lparr>opened := opened w @ [(path, ''wb'')], files := (files w)(path \<mapsto> [])\<rparr>)"
  by (simp add: GetFileDescriptorOrDie_def FOpen_def)

text \<open>
  C5. When the blob path is set, the file opens and \<^verbatim>\<open>fwrite\<close> reports fewer bytes than
  the blob has, \<^verbatim>\<open>MaybeWriteStartupBlob\<close> prints its message, removes the file and ends the
  process with status 1: the file is absent afterwards. In \<^verbatim>\<open>WriteSnapshot\<close> the source
  sub-write has run before: the world left behind is the one the source sub-write
  returned, with the message printed and the binary file removed, and nothing is written
  after the failure.
\<close>

theorem short_write_cleanup:
  assumes "snapshot_blob_path sw = Some path"
    and "fopen_ok e path ''wb''"
    and "fwrite_count e (length blob) < length blob"
  shows "MaybeWriteStartupBlob e sw blob w
           = Inl (Exit 1, w\<lparr>opened := opened w @ [(path, ''wb'')],
                             stdout := stdout w @ ''Writing snapshot file failed.. Aborting.\<newline>'',
                             files := (files w)(path := None)\<rparr>)
         \<and> (case MaybeWriteStartupBlob e sw blob w of
               Inl (oc, w') \<Rightarrow> oc = Exit 1 \<and> files w' path = None
             | Inr w' \<Rightarrow> False)
         \<and> (\<forall>w1. MaybeWriteSnapshotFile e sw blob w = Inr w1 \<and> Vector (data b) (raw_size b) = blob \<longrightarrow>
               WriteSnapshot e sw b w
                 = Inl (Exit 1, w1\<lparr>opened := opened w1 @ [(path, ''wb'')],
                                    stdout := stdout w1 @ ''Writing snapshot file failed.. Aborting.\<newline>'',
                                    files := (files w1)(path := None)\<rparr>))"
proof -
  have blob_write: "MaybeWriteStartupBlob e sw blob w'
           = Inl (Exit 1, w'\<lparr>opened := opened w' @ [(path, ''wb'')],
                             stdout := stdout w' @ ''Writing snapshot file failed.. Aborting.\<newline>'',
                             files := (files w')(path := None)\<rparr>)" for w'
    using assms(3)
    by (simp add: MaybeWriteStartupBlob_def assms(1) open_wb_ok [OF assms(2)] fwrite_def
          printf_def PrintF_def remove_def Let_def)
  show ?thesis
    by (simp add: blob_write WriteSnapshot_def)
qed

theorem short_write_cleanup_witness:
  "MaybeWriteStartupBlob env_short \<lparr>snapshot_cpp_path = Some ''snapshot.cc'', snapshot_blob_path = Some ''snapshot_blob.bin''\<rparr> [1, 2, 3] world0
     = Inl (Exit 1, world0\<lparr>opened := [(''snapshot_blob.bin'', ''wb'')],
                           stdout := ''Writing snapshot file failed.. Aborting.\<newline>''\<rparr>)
   \<and> WriteSnapshot env_short \<lparr>snapshot_cpp_path = Some ''snapshot.cc'', snapshot_blob_path = Some ''snapshot_blob.bin''\<rparr>
         \<lparr>data = Some [1, 2, 3], raw_size = 3\<rparr> world0
     = Inl (Exit 1, world0\<lparr>opened := [(''snapshot.cc'', ''wb''), (''snapshot_blob.bin'', ''wb'')],
                           stdout := ''Writing snapshot file failed.. Aborting.\<newline>'',
                           files := [''snapshot.cc'' \<mapsto>
                             map of_char (WriteFileSuffix (WriteData (WriteFilePrefix []) [1, 2, 3]))]\<rparr>)"
proof -
  let ?sw = "\<lparr>snapshot_cpp_path = Some ''snapshot.cc'', snapshot_blob_path = Some ''snapshot_blob.bin''\<rparr>"
  let ?b = "\<lparr>data = Some [1, 2, 3 :: byte], raw_size = 3\<rparr>"
  have h1: "snapshot_blob_path ?sw = Some ''snapshot_blob.bin''" by simp
  have h2: "fopen_ok env_short ''snapshot_blob.bin'' ''wb''" by (simp add: env_short_def env0_def)
  have h3: "fwrite_count env_short (length [1, 2, 3 :: byte]) < length [1, 2, 3 :: byte]"
    by (simp add: env_short_def env0_def)
  have v: "Vector (data ?b) (raw_size ?b) = [1, 2, 3]"
    by (simp add: Vector_def)
  have src: "MaybeWriteSnapshotFile env_short ?sw [1, 2, 3] world0
      = Inr (world0\<lparr>opened := [(''snapshot.cc'', ''wb'')],
                     files := [''snapshot.cc'' \<mapsto>
                       map of_char (WriteFileSuffix (WriteData (WriteFilePrefix []) [1, 2, 3]))]\<rparr>)"
    by (simp add: MaybeWriteSnapshotFile_def GetFileDescriptorOrDie_def FOpen_def fclose_text_def
          env_short_def env0_def world0_def)
  note t = short_write_cleanup [OF h1 h2 h3, of world0 ?b]
  from t src v show ?thesis
    by (simp add: world0_def)
qed



subsection \<open>The script loader\<close>

lemma GetExtraCode_no_script:
  "GetExtraCode e None d w = Some (Inr (None, w))"
  "GetExtraCode e (Some []) d w = Some (Inr (None, w))"
  by (simp_all add: GetExtraCode_def strlen_def)

lemma GetExtraCode_frame:
  assumes "GetExtraCode e f d w = Some (Inr (r, w'))"
  shows "files w' = files w \<and> stderr w' = stderr w
         \<and> filter (\<lambda>(p, m). m = ''wb'') (opened w') = filter (\<lambda>(p, m). m = ''wb'') (opened w)"
  using assms
  by (auto simp: GetExtraCode_def FOpen_def printf_def Let_def
           split: option.splits if_splits sum.splits prod.splits)

text \<open>
  C8. For an absent or empty file name \<^verbatim>\<open>GetExtraCode\<close> returns no script and leaves the
  world as it was: no file is opened and no progress message is printed. \<^verbatim>\<open>main\<close> does
  the same with an empty script argument as without the argument.
\<close>

theorem no_script_path:
  "GetExtraCode e None d w = Some (Inr (None, w))
   \<and> GetExtraCode e (Some []) d w = Some (Inr (None, w))
   \<and> main e fl [prog, []] w = main e fl [prog] w
   \<and> main e fl [prog, a, []] w = main e fl [prog, a] w
   \<and> main e fl [prog, [], []] w = main e fl [prog] w"
  by (simp add: GetExtraCode_no_script main_def
        cong: option.case_cong sum.case_cong prod.case_cong)

lemma GetExtraCode_loop_error:
  "i < fsize \<Longrightarrow> fread_error e k \<Longrightarrow>
   GetExtraCode_loop e fn content k i fsize chars w
     = Some (Inl (Exit 1, eprintf w (''Failed to read '' @ [CHR 0x27] @ fn @ [CHR 0x27]
                                      @ '': errno '' @ fmt_d (errno e) @ ''\<newline>'')))"
  by (subst GetExtraCode_loop.simps) (simp add: Let_def)

lemma GetExtraCode_loop_reads_all:
  assumes progress: "\<And>k n. 0 < n \<Longrightarrow> 0 < fread_count e k n"
    and no_error: "\<And>k. \<not> fread_error e k"
  shows "i \<le> length content \<Longrightarrow>
         GetExtraCode_loop e fn content k i (length content) (take i content @ drop i c0) w
           = Some (Inr (content @ drop (length content) c0))"
proof (induction "length content - i" arbitrary: i k rule: less_induct)
  case less
  show ?case
  proof (cases "i < length content")
    case False
    with less.prems have "i = length content" by simp
    then show ?thesis
      by (subst GetExtraCode_loop.simps) simp
  next
    case True
    define n where "n = min (fread_count e k (length content - i))
                            (min (length content - i) (length content - i))"
    have n_pos: "0 < n" and n_le: "i + n \<le> length content"
      using True progress [of "length content - i" k] by (simp_all add: n_def)
    have chars: "take i (take i content @ drop i c0) @ take n (drop i content)
                   @ drop (i + n) (take i content @ drop i c0)
                 = take (i + n) content @ drop (i + n) c0"
      using True by (simp add: take_add add.commute)
    have "GetExtraCode_loop e fn content k i (length content) (take i content @ drop i c0) w
        = GetExtraCode_loop e fn content (k + 1) (i + n) (length content)
            (take (i + n) content @ drop (i + n) c0) w"
      by (subst GetExtraCode_loop.simps)
         (simp only: True no_error if_True if_False Let_def n_def [symmetric] chars)
    also have "\<dots> = Some (Inr (content @ drop (length content) c0))"
      using n_pos n_le True by (intro less.hyps) simp_all
    finally show ?thesis .
  qed
qed

lemma drop_last_cell: "length xs = Suc n \<Longrightarrow> drop n xs = [xs ! n]"
  using Cons_nth_drop_Suc [of n xs] by simp

text \<open>
  C9. When the script file opens, every \<^verbatim>\<open>fread\<close> call that is asked for bytes delivers
  at least one and none sets the error indicator, \<^verbatim>\<open>GetExtraCode\<close> returns a buffer of
  \<open>L + 1\<close> bytes for a file of \<open>L\<close> bytes: the file's content in order, then the byte 0.
  In any iteration of the read loop after which the error indicator is set the process
  ends with status 1 and a diagnostic on standard error that names the path and
  \<^verbatim>\<open>errno\<close>; so it does when the first read of a non-empty file fails.
\<close>

theorem script_loaded_whole:
  assumes "fn \<noteq> []" and "files w fn = Some content" and "fopen_ok e fn ''rb''"
    and "\<forall>k n. 0 < n \<longrightarrow> 0 < fread_count e k n"
    and "\<forall>k. \<not> fread_error e k"
  shows "GetExtraCode e (Some fn) d w
           = Some (Inr (Some (content @ [0]),
                        w\<lparr>stdout := stdout w @ ''Loading script for '' @ d @ '': '' @ fn @ ''\<newline>'',
                          opened := opened w @ [(fn, ''rb'')]\<rparr>))
         \<and> length (content @ [0 :: byte]) = length content + 1
         \<and> take (length content) (content @ [0 :: byte]) = content
         \<and> (content @ [0 :: byte]) ! length content = 0
         \<and> (\<forall>e' k i fsize chars w'. i < fsize \<and> fread_error e' k \<longrightarrow>
               GetExtraCode_loop e' fn content k i fsize chars w'
                 = Some (Inl (Exit 1, eprintf w' (''Failed to read '' @ [CHR 0x27] @ fn @ [CHR 0x27]
                                      @ '': errno '' @ fmt_d (errno e') @ ''\<newline>''))))
         \<and> (\<forall>e'. content \<noteq> [] \<and> fopen_ok e' fn ''rb'' \<and> fread_error e' 0 \<longrightarrow>
               GetExtraCode e' (Some fn) d w
                 = Some (Inl (Exit 1,
                      w\<lparr>stdout := stdout w @ ''Loading script for '' @ d @ '': '' @ fn @ ''\<newline>'',
                        opened := opened w @ [(fn, ''rb'')],
                        stderr := stderr w @ ''Failed to read '' @ [CHR 0x27] @ fn @ [CHR 0x27]
                                    @ '': errno '' @ fmt_d (errno e') @ ''\<newline>''\<rparr>)))"
proof -
  let ?c0 = "(map (uninit e) [0..<length content + 1])[length content := 0]"
  let ?w2 = "w\<lparr>stdout := stdout w @ ''Loading script for '' @ d @ '': '' @ fn @ ''\<newline>'',
               opened := opened w @ [(fn, ''rb'')]\<rparr>"
  have last_cell: "drop (length content) ?c0 = [0]"
    by (subst drop_last_cell) simp_all
  have "GetExtraCode_loop e fn content 0 0 (length content) (take 0 content @ drop 0 ?c0) ?w2
          = Some (Inr (content @ drop (length content) ?c0))"
    using assms(4,5) by (intro GetExtraCode_loop_reads_all) simp_all
  then have loop: "GetExtraCode_loop e fn content 0 0 (length content) ?c0 ?w2
          = Some (Inr (content @ [0]))"
    by (simp only: last_cell take_0 drop_0 append_Nil)
  have ok: "GetExtraCode e (Some fn) d w = Some (Inr (Some (content @ [0]), ?w2))"
    using assms(1,2,3) loop
    by (simp add: GetExtraCode_def strlen_def FOpen_def printf_def Let_def)
  have err: "GetExtraCode e' (Some fn) d w
                 = Some (Inl (Exit 1,
                      w\<lparr>stdout := stdout w @ ''Loading script for '' @ d @ '': '' @ fn @ ''\<newline>'',
                        opened := opened w @ [(fn, ''rb'')],
                        stderr := stderr w @ ''Failed to read '' @ [CHR 0x27] @ fn @ [CHR 0x27]
                                    @ '': errno '' @ fmt_d (errno e') @ ''\<newline>''\<rparr>))"
    if "content \<noteq> []" "fopen_ok e' fn ''rb''" "fread_error e' 0" for e'
    using assms(1,2) that
    by (simp add: GetExtraCode_def strlen_def FOpen_def printf_def eprintf_def Let_def
          GetExtraCode_loop_error)
  show ?thesis
    using ok err by (simp add: GetExtraCode_loop_error nth_append)
qed

theorem script_loaded_whole_witness:
  "GetExtraCode env0 (Some ''warmup.js'') ''warm up'' world_script
     = Some (Inr (Some [104, 105, 0],
          world_script\<lparr>stdout := ''Loading script for warm up: warmup.js\<newline>'',
                         opened := [(''warmup.js'', ''rb'')]\<rparr>))
   \<and> GetExtraCode env_read_error (Some ''warmup.js'') ''warm up'' world_script
     = Some (Inl (Exit 1,
          world_script\<lparr>stdout := ''Loading script for warm up: warmup.js\<newline>'',
                         opened := [(''warmup.js'', ''rb'')],
                         stderr := ''Failed to read '' @ [CHR 0x27] @ ''warmup.js'' @ [CHR 0x27] @ '': errno 5\<newline>''\<rparr>))"
proof -
  have h1: "''warmup.js'' \<noteq> []" by simp
  have h2: "files world_script ''warmup.js'' = Some [104, 105]"
    by (simp add: world_script_def)
  have h3: "fopen_ok env0 ''warmup.js'' ''rb''" by (simp add: env0_def)
  have h4: "\<forall>k n. 0 < n \<longrightarrow> 0 < fread_count env0 k n" by (simp add: env0_def)
  have h5: "\<forall>k. \<not> fread_error env0 k" by (simp add: env0_def)
  have g: "[104, 105 :: byte] \<noteq> [] \<and> fopen_ok env_read_error ''warmup.js'' ''rb''
           \<and> fread_error env_read_error 0"
    by (simp add: env_read_error_def env0_def)
  have d5: "fmt_d (errno env_read_error) = ''5''"
    by (simp add: env_read_error_def env0_def fmt_d_def fmt_u.simps digit_char_def)
  note t = script_loaded_whole [OF h1 h2 h3 h4 h5, of "''warm up''"]
  have a: "GetExtraCode env0 (Some ''warmup.js'') ''warm up'' world_script
     = Some (Inr (Some [104, 105, 0],
          world_script\<lparr>stdout := ''Loading script for warm up: warmup.js\<newline>'',
                         opened := [(''warmup.js'', ''rb'')]\<rparr>))"
    using t [THEN conjunct1] by (simp add: world_script_def world0_def)
  have "\<forall>e'. [104, 105 :: byte] \<noteq> [] \<and> fopen_ok e' ''warmup.js'' ''rb'' \<and> fread_error e' 0 \<longrightarrow>
               GetExtraCode e' (Some ''warmup.js'') ''warm up'' world_script
                 = Some (Inl (Exit 1,
                      world_script\<lparr>stdout := stdout world_script @ ''Loading script for '' @ ''warm up'' @ '': '' @ ''warmup.js'' @ ''\<newline>'',
                        opened := opened world_script @ [(''warmup.js'', ''rb'')],
                        stderr := stderr world_script @ ''Failed to read '' @ [CHR 0x27] @ ''warmup.js'' @ [CHR 0x27]
                                    @ '': errno '' @ fmt_d (errno e') @ ''\<newline>''\<rparr>))"
    using t by blast
  from this [rule_format, OF g] have b: "GetExtraCode env_read_error (Some ''warmup.js'') ''warm up'' world_script
     = Some (Inl (Exit 1,
          world_script\<lparr>stdout := ''Loading script for warm up: warmup.js\<newline>'',
                         opened := [(''warmup.js'', ''rb'')],
                         stderr := ''Failed to read '' @ [CHR 0x27] @ ''warmup.js'' @ [CHR 0x27] @ '': errno 5\<newline>''\<rparr>))"
    by (simp add: d5 world_script_def world0_def)
  from a b show ?thesis by simp
qed

subsection \<open>The driver\<close>

text \<open>
  C6. When the command line is accepted, both script loads return and the final blob has
  no buffer, \<^verbatim>\<open>main\<close> aborts at the check: \<^verbatim>\<open>WriteSnapshot\<close> is not reached, the files are
  those of the start and no file has been opened for writing.
\<close>

theorem null_blob_aborts:
  assumes "\<not> (parse_result fl > 0 \<or> length argv > 3 \<or> FLAG_help fl)"
    and "GetExtraCode e (if length argv \<ge> 2 then Some (argv ! 1) else None) ''embedding'' w
           = Some (Inr (embed_script, w1))"
    and "GetExtraCode e (if length argv \<ge> 3 then Some (argv ! 2) else None) ''warm up'' w1
           = Some (Inr (warmup_script, w2))"
    and "data (case warmup_script of
                 None \<Rightarrow> CreateSnapshotDataBlob e embed_script
               | Some ws \<Rightarrow> WarmUpSnapshotDataBlob e (CreateSnapshotDataBlob e embed_script) ws) = None"
  shows "main e fl argv w = Some (Abort, w2)
         \<and> files w2 = files w
         \<and> filter (\<lambda>(p, m). m = ''wb'') (opened w2) = filter (\<lambda>(p, m). m = ''wb'') (opened w)"
proof -
  have "main e fl argv w = Some (Abort, w2)"
    using assms by (simp add: main_def CHECK_def Let_def)
  moreover have "files w2 = files w"
    using GetExtraCode_frame [OF assms(2)] GetExtraCode_frame [OF assms(3)] by simp
  moreover have "filter (\<lambda>(p, m). m = ''wb'') (opened w2) = filter (\<lambda>(p, m). m = ''wb'') (opened w)"
    using GetExtraCode_frame [OF assms(2)] GetExtraCode_frame [OF assms(3)] by simp
  ultimately show ?thesis by simp
qed

theorem null_blob_aborts_witness:
  "main env_null flags0 [''mksnapshot''] world0 = Some (Abort, world0)"
proof -
  have h1: "\<not> (parse_result flags0 > 0 \<or> length [''mksnapshot''] > 3 \<or> FLAG_help flags0)"
    by (simp add: flags0_def)
  have h2: "GetExtraCode env_null (if length [''mksnapshot''] \<ge> 2 then Some ([''mksnapshot''] ! 1) else None)
              ''embedding'' world0 = Some (Inr (None, world0))"
    by (simp add: GetExtraCode_no_script)
  have h3: "GetExtraCode env_null (if length [''mksnapshot''] \<ge> 3 then Some ([''mksnapshot''] ! 2) else None)
              ''warm up'' world0 = Some (Inr (None, world0))"
    by (simp add: GetExtraCode_no_script)
  have h4: "data (case None of
                 None \<Rightarrow> CreateSnapshotDataBlob env_null None
               | Some ws \<Rightarrow> WarmUpSnapshotDataBlob env_null (CreateSnapshotDataBlob env_null None) ws) = None"
    by (simp add: env_null_def env0_def)
  from null_blob_aborts [OF h1 h2 h3 h4] show ?thesis by simp
qed

end
